theory Spec2Isabelle
  imports Main "HOL-Library.Sublist"
begin

section \<open>Artefact destinations of conda-build-all\<close>

text \<open>
  A shallow embedding of \<^verbatim>\<open>conda_build_all/artefact_destination.py\<close>.
  Exceptions are values of \<open>py_error\<close>, a method that mutates \<open>self\<close> or the
  outside world returns the new state, and every call into a collaborator
  (the binstar client, \<^verbatim>\<open>inspect_binstar\<close>, \<^verbatim>\<open>build\<close>, the logger) is recorded
  in a trace. The directory destination works on a model of the file system.
\<close>

subsection \<open>Python strings\<close>

text \<open>
  \<^verbatim>\<open>sub in s\<close> for two strings: \<open>sub\<close> occurs in \<open>s\<close> as a contiguous
  substring, at any position.
\<close>

fun str_contains :: "string \<Rightarrow> string \<Rightarrow> bool" where
  "str_contains sub [] = (sub = [])"
| "str_contains sub (c # cs) = (prefix sub (c # cs) \<or> str_contains sub cs)"

text \<open>
  \<^verbatim>\<open>s.split(sep)\<close> for a separator of one character: the pieces between the
  occurrences of the separator, empty pieces included; a string without the
  separator (the empty string too) gives the one-element list of itself.
\<close>

fun str_split :: "char \<Rightarrow> string \<Rightarrow> string list" where
  "str_split sep [] = [[]]"
| "str_split sep (c # cs) =
     (if c = sep then [] # str_split sep cs
      else (case str_split sep cs of
              [] \<Rightarrow> [[c]]
            | piece # pieces \<Rightarrow> (c # piece) # pieces))"

subsection \<open>Exceptions\<close>

text \<open>
  The exceptions the module raises itself (\<open>IOError\<close> and
  \<open>NotImplementedError\<close>, with their messages), the \<open>ValueError\<close> of a failed
  tuple unpacking, \<open>OSError\<close> for a failure of a file-system call of the standard
  library (\<open>os_error\<close> says which), and \<open>RemoteError\<close> for whatever a call
  into the binstar client raises.
\<close>

datatype os_error =
    FileExistsError
  | FileNotFoundError
  | NotADirectoryError
  | IsADirectoryError
  | SameFileError

datatype py_error =
    ValueError
  | IOError string
  | NotImplementedError string
  | OSError os_error
  | RemoteError string

subsection \<open>The channel destination\<close>

text \<open>
  \<^verbatim>\<open>AnacondaClientChannelDest\<close>: the fields \<^verbatim>\<open>__init__\<close> sets. \<open>cli\<close> is
  \<^verbatim>\<open>self._cli\<close>, \<open>None\<close> until a client has been built. \<open>token\<close> and \<open>site\<close>
  may be \<^verbatim>\<open>None\<close>.
\<close>

record 'cli channel_dest =
  token :: "string option"
  owner :: string
  channel :: string
  cli :: "'cli option"
  site :: "string option"

definition channel_dest_init ::
  "string option \<Rightarrow> string \<Rightarrow> string \<Rightarrow> string option \<Rightarrow> 'cli channel_dest" where
  "channel_dest_init tok own chan st =
     \<lparr>token = tok, owner = own, channel = chan, cli = None, site = st\<rparr>"

text \<open>
  \<^verbatim>\<open>from_spec(cls, spec, site=None)\<close>. \<open>environ\<close> is \<^verbatim>\<open>os.environ\<close>. The
  statement \<^verbatim>\<open>owner, _, channel = spec.split('/')\<close> unpacks into three names, so
  it raises \<open>ValueError\<close> unless the split has exactly three pieces.
\<close>

definition from_spec ::
  "(string \<rightharpoonup> string) \<Rightarrow> string \<Rightarrow> string option \<Rightarrow> py_error + 'cli channel_dest" where
  "from_spec environ spec st =
     (let tok = environ ''BINSTAR_TOKEN'' in
      if str_contains ''/'' spec then
        (case str_split (CHR ''/'') spec of
           [own, _, chan] \<Rightarrow> Inr (channel_dest_init tok own chan st)
         | _ \<Rightarrow> Inl ValueError)
      else Inr (channel_dest_init tok spec ''main'' st))"

text \<open>
  What the module reads of a \<^verbatim>\<open>MetaData\<close> object: the results of
  \<^verbatim>\<open>meta.name()\<close> and \<^verbatim>\<open>meta.dist()\<close>.
\<close>

record meta =
  meta_name :: string
  meta_dist :: string

text \<open>
  The calls \<^verbatim>\<open>make_available\<close> makes into its collaborators, with their
  arguments, in the order of the source's parameter lists. A trace is the list
  of the calls made so far, oldest first.
\<close>

datatype 'cli call =
    GetBinstar "string option" "string option"
  | DistributionExists 'cli string meta
  | DistributionExistsOnChannel 'cli string meta string
  | AddDistributionToChannel 'cli string meta string
  | Upload 'cli meta string "string list"
  | LogInfo string
  | LogWarn string

text \<open>
  The collaborators are not part of the module; they are parameters of the
  model. Each takes the trace of the calls made before it, so its answer may
  depend on what has happened already (a distribution exists once it has been
  uploaded). \<open>get_binstar\<close> builds a client from the token and the site; the
  two queries, the link and the upload may fail with an exception.
\<close>

record 'cli services =
  get_binstar :: "'cli call list \<Rightarrow> string option \<Rightarrow> string option \<Rightarrow> 'cli"
  distribution_exists ::
    "'cli call list \<Rightarrow> 'cli \<Rightarrow> string \<Rightarrow> meta \<Rightarrow> py_error + bool"
  distribution_exists_on_channel ::
    "'cli call list \<Rightarrow> 'cli \<Rightarrow> string \<Rightarrow> meta \<Rightarrow> string \<Rightarrow> py_error + bool"
  add_distribution_to_channel ::
    "'cli call list \<Rightarrow> 'cli \<Rightarrow> string \<Rightarrow> meta \<Rightarrow> string \<Rightarrow> py_error + unit"
  upload ::
    "'cli call list \<Rightarrow> 'cli \<Rightarrow> meta \<Rightarrow> string \<Rightarrow> string list \<Rightarrow> py_error + unit"

text \<open>
  Lines 111 to 113 of \<^verbatim>\<open>make_available\<close>: the client is built only when
  \<^verbatim>\<open>self._cli\<close> is \<^verbatim>\<open>None\<close>, and kept in \<^verbatim>\<open>self._cli\<close>. The result is
  the client in use, the updated object and the updated trace.
\<close>

definition ensure_cli ::
  "'cli services \<Rightarrow> 'cli channel_dest \<Rightarrow> 'cli call list
     \<Rightarrow> 'cli \<times> 'cli channel_dest \<times> 'cli call list" where
  "ensure_cli sv self t =
     (case cli self of
        None \<Rightarrow>
          (let c = get_binstar sv t (token self) (site self)
           in (c, self\<lparr>cli := Some c\<rparr>, t @ [GetBinstar (token self) (site self)]))
      | Some c \<Rightarrow> (c, self, t))"

text \<open>
  Lines 120 to 141: the chain of \<^verbatim>\<open>if\<close> and \<^verbatim>\<open>elif\<close> over the two answers and
  \<^verbatim>\<open>just_built\<close>, in the source's order. The last \<^verbatim>\<open>elif not just_built\<close> has no
  \<^verbatim>\<open>else\<close>: the method returns \<^verbatim>\<open>None\<close> there.
\<close>

definition dispatch ::
  "'cli services \<Rightarrow> 'cli channel_dest \<Rightarrow> 'cli \<Rightarrow> meta \<Rightarrow> string \<Rightarrow> bool \<Rightarrow> bool \<Rightarrow> bool
     \<Rightarrow> 'cli call list \<Rightarrow> (py_error + unit) \<times> 'cli call list" where
  "dispatch sv self c m built_dist_path just_built already_with_owner already_on_channel t =
     (if already_on_channel \<and> \<not> just_built then
        (Inr (), t @ [LogInfo (''Nothing to be done for '' @ meta_name m
                        @ '' - it is already on '' @ owner self @ ''/'' @ channel self @ ''.'')])
      else if already_on_channel \<and> just_built then
        (Inr (), t @ [LogWarn (''Assuming the distribution we've just built and the one on ''
                        @ owner self @ ''/'' @ channel self @ '' are the same.'')])
      else if already_with_owner then
        (let t1 = (if just_built then
                     t @ [LogWarn (''Assuming the distribution we've just built and the one owned by ''
                            @ owner self @ '' are the same.'')]
                   else t);
             t2 = t1 @ [LogInfo (''Adding existing '' @ meta_dist m @ '' to the ''
                          @ owner self @ ''/'' @ channel self @ '' channel.'')]
         in (add_distribution_to_channel sv t2 c (owner self) m (channel self),
             t2 @ [AddDistributionToChannel c (owner self) m (channel self)]))
      else if just_built then
        (let t1 = t @ [LogInfo (''Uploading '' @ meta_name m @ '' to the ''
                          @ channel self @ '' channel.'')]
         in (upload sv t1 c m (owner self) [channel self],
             t1 @ [Upload c m (owner self) [channel self]]))
      else if \<not> just_built then
        (if str_contains ''http://'' built_dist_path \<or> str_contains ''https://'' built_dist_path
         then (Inl (NotImplementedError ''cross owner copying not yet implemented.''), t)
         else (Inr (), t))
      else (Inr (), t))"

text \<open>
  \<^verbatim>\<open>AnacondaClientChannelDest.make_available(self, meta, built_dist_path, just_built)\<close>.
  The result is the outcome (an exception or \<^verbatim>\<open>None\<close>), the object after the
  call and the trace after the call. An exception of a query ends the call; the
  client built before it stays in \<^verbatim>\<open>self._cli\<close>.
\<close>

definition make_available ::
  "'cli services \<Rightarrow> 'cli channel_dest \<Rightarrow> meta \<Rightarrow> string \<Rightarrow> bool \<Rightarrow> 'cli call list
     \<Rightarrow> (py_error + unit) \<times> 'cli channel_dest \<times> 'cli call list" where
  "make_available sv self m built_dist_path just_built t =
     (case ensure_cli sv self t of (c, self1, t1) \<Rightarrow>
        (let t2 = t1 @ [DistributionExists c (owner self1) m] in
         case distribution_exists sv t1 c (owner self1) m of
           Inl e \<Rightarrow> (Inl e, self1, t2)
         | Inr already_with_owner \<Rightarrow>
             (let t3 = t2 @ [DistributionExistsOnChannel c (owner self1) m (channel self1)] in
              case distribution_exists_on_channel sv t2 c (owner self1) m (channel self1) of
                Inl e \<Rightarrow> (Inl e, self1, t3)
              | Inr already_on_channel \<Rightarrow>
                  (case dispatch sv self1 c m built_dist_path just_built
                          already_with_owner already_on_channel t3 of
                     (r, t4) \<Rightarrow> (r, self1, t4)))))"

text \<open>
  The values \<^verbatim>\<open>make_available\<close> binds to its local variables
  \<^verbatim>\<open>already_with_owner\<close> (line 115) and \<^verbatim>\<open>already_on_channel\<close> (line 116) in a
  call on \<open>self\<close> after the trace \<open>t\<close>, or the exception of the query.
\<close>

definition already_with_owner ::
  "'cli services \<Rightarrow> 'cli channel_dest \<Rightarrow> meta \<Rightarrow> 'cli call list \<Rightarrow> py_error + bool" where
  "already_with_owner sv self m t =
     (case ensure_cli sv self t of (c, self1, t1) \<Rightarrow>
        distribution_exists sv t1 c (owner self1) m)"

definition already_on_channel ::
  "'cli services \<Rightarrow> 'cli channel_dest \<Rightarrow> meta \<Rightarrow> 'cli call list \<Rightarrow> py_error + bool" where
  "already_on_channel sv self m t =
     (case ensure_cli sv self t of (c, self1, t1) \<Rightarrow>
        distribution_exists_on_channel sv (t1 @ [DistributionExists c (owner self1) m])
          c (owner self1) m (channel self1))"

text \<open>The client \<^verbatim>\<open>self._cli\<close> that a call on \<open>self\<close> after the trace \<open>t\<close> works with.\<close>

definition client_in_use :: "'cli services \<Rightarrow> 'cli channel_dest \<Rightarrow> 'cli call list \<Rightarrow> 'cli" where
  "client_in_use sv self t = fst (ensure_cli sv self t)"

text \<open>Reading a trace: the uploads, the links and the client constructions in it.\<close>

fun is_upload :: "'cli call \<Rightarrow> bool" where
  "is_upload (Upload _ _ _ _) = True"
| "is_upload _ = False"

fun is_link :: "'cli call \<Rightarrow> bool" where
  "is_link (AddDistributionToChannel _ _ _ _) = True"
| "is_link _ = False"

fun is_get_binstar :: "'cli call \<Rightarrow> bool" where
  "is_get_binstar (GetBinstar _ _) = True"
| "is_get_binstar _ = False"

fun is_log :: "'cli call \<Rightarrow> bool" where
  "is_log (LogInfo _) = True"
| "is_log (LogWarn _) = True"
| "is_log _ = False"



text \<open>
  The trace once lines 111 to 119 have run without an exception: the trace of
  \<open>ensure_cli\<close>, then the two queries.
\<close>

definition queried ::
  "'cli services \<Rightarrow> 'cli channel_dest \<Rightarrow> meta \<Rightarrow> 'cli call list \<Rightarrow> 'cli call list" where
  "queried sv self m t =
     (case ensure_cli sv self t of (c, self1, t1) \<Rightarrow>
        t1 @ [DistributionExists c (owner self1) m,
              DistributionExistsOnChannel c (owner self1) m (channel self1)])"

text \<open>The three parts of what \<^verbatim>\<open>make_available\<close> gives.\<close>

definition outcome :: "'r \<times> 's \<times> 't \<Rightarrow> 'r" where
  "outcome res = fst res"

definition dest_after :: "'r \<times> 's \<times> 't \<Rightarrow> 's" where
  "dest_after res = fst (snd res)"

definition trace_after :: "'r \<times> 's \<times> 't \<Rightarrow> 't" where
  "trace_after res = snd (snd res)"


text \<open>
  Services for the examples: clients are numbered by the client constructions
  in the trace, the two queries give fixed answers, the link and the upload
  succeed.
\<close>

definition fixed_services :: "bool \<Rightarrow> bool \<Rightarrow> nat services" where
  "fixed_services awo aoc =
     \<lparr>get_binstar = (\<lambda>h tok st. length (filter is_get_binstar h)),
      distribution_exists = (\<lambda>h c own m. Inr awo),
      distribution_exists_on_channel = (\<lambda>h c own m chan. Inr aoc),
      add_distribution_to_channel = (\<lambda>h c own m chan. Inr ()),
      upload = (\<lambda>h c m own chans. Inr ())\<rparr>"

definition alice_test :: "nat channel_dest" where
  "alice_test = channel_dest_init (Some ''secret'') ''alice'' ''test'' None"

definition pkg :: meta where
  "pkg = \<lparr>meta_name = ''pkg'', meta_dist = ''pkg-1.0-0''\<rparr>"

subsection \<open>The file system\<close>

text \<open>
  The directory destination works on the file system through \<^verbatim>\<open>os\<close>,
  \<^verbatim>\<open>os.path\<close> and \<^verbatim>\<open>shutil\<close> of the Python standard library. The model
  keeps the part of them the module uses. A location is an absolute,
  normalised path, kept as the list of its components (\<open>[]\<close> is the root);
  the file system maps a location to a directory or to a regular file with its
  content. There are no symbolic links, permissions or special files.
\<close>

datatype node = Dir | File string

type_synonym path = "string list"

type_synonym files = "path \<rightharpoonup> node"

text \<open>The root is always a directory.\<close>

definition node_at :: "files \<Rightarrow> path \<Rightarrow> node option" where
  "node_at fs p = (if p = [] then Some Dir else fs p)"

text \<open>
  \<^verbatim>\<open>os.mkdir(p)\<close>: fails when \<open>p\<close> exists, when its parent is missing and
  when its parent is a regular file. The result is the outcome and the file
  system after the call.
\<close>

definition mkdir :: "files \<Rightarrow> path \<Rightarrow> (py_error + unit) \<times> files" where
  "mkdir fs p =
     (if node_at fs p \<noteq> None then (Inl (OSError FileExistsError), fs)
      else (case node_at fs (butlast p) of
              None \<Rightarrow> (Inl (OSError FileNotFoundError), fs)
            | Some (File _) \<Rightarrow> (Inl (OSError NotADirectoryError), fs)
            | Some Dir \<Rightarrow> (Inr (), fs(p \<mapsto> Dir))))"

text \<open>
  \<^verbatim>\<open>os.makedirs(p)\<close> with \<^verbatim>\<open>exist_ok=False\<close>: when the parent does not
  exist it is made first, by the same function, and a \<open>FileExistsError\<close> of
  that recursive call is passed over; then \<^verbatim>\<open>os.mkdir(p)\<close>. The recursion is
  on a shorter path every time.
\<close>

function makedirs :: "files \<Rightarrow> path \<Rightarrow> (py_error + unit) \<times> files" where
  "makedirs fs p =
     (if p \<noteq> [] \<and> node_at fs (butlast p) = None then
        (case makedirs fs (butlast p) of
           (Inl e, fs1) \<Rightarrow>
             (if e = OSError FileExistsError then mkdir fs1 p else (Inl e, fs1))
         | (Inr _, fs1) \<Rightarrow> mkdir fs1 p)
      else mkdir fs p)"
  by pat_completeness auto
termination
  by (relation "measure (\<lambda>(fs, p). length p)") auto

text \<open>\<^verbatim>\<open>os.path.basename(p)\<close>: what follows the last \<^verbatim>\<open>/\<close> of \<open>p\<close>.\<close>

definition basename :: "string \<Rightarrow> string" where
  "basename p = last (str_split (CHR ''/'') p)"

text \<open>
  \<^verbatim>\<open>os.path.expanduser\<close> and \<^verbatim>\<open>os.path.abspath\<close> depend on the home
  directories and on the working directory of the process; they are parameters
  of the model. \<open>abspath\<close> gives the location its result names. A path string
  handed to a file-system call names the location \<open>abspath\<close> gives it.
\<close>

record os_env =
  expanduser :: "string \<Rightarrow> string"
  abspath :: "string \<Rightarrow> path"

text \<open>
  \<^verbatim>\<open>shutil.copy(src, dst)\<close>: when \<open>dst\<close> is a directory the target is the
  entry of \<open>dst\<close> named \<^verbatim>\<open>os.path.basename(src)\<close>, else \<open>dst\<close> itself. The
  copy fails when the source is missing or a directory, when the source path
  ends in \<^verbatim>\<open>/\<close>, \<^verbatim>\<open>.\<close> or \<^verbatim>\<open>..\<close> (such a path never opens as a regular
  file: on a regular file it gives \<open>NotADirectoryError\<close>), when source and
  target are the same file, when the target is a directory, and when the
  target's parent is no directory. Otherwise the target becomes a regular file with the
  content of the source, replacing a file that was there.
\<close>

definition shutil_copy :: "os_env \<Rightarrow> files \<Rightarrow> string \<Rightarrow> path \<Rightarrow> py_error + files" where
  "shutil_copy env fs src dst =
     (let name = basename src;
          target = (if node_at fs dst = Some Dir then dst @ [name] else dst)
      in if name = [] \<or> name = ''.'' \<or> name = ''..'' then
           (case node_at fs (abspath env src) of
              None \<Rightarrow> Inl (OSError FileNotFoundError)
            | Some Dir \<Rightarrow> Inl (OSError IsADirectoryError)
            | Some (File _) \<Rightarrow> Inl (OSError NotADirectoryError))
         else if node_at fs (abspath env src) \<noteq> None \<and> target = abspath env src then
           Inl (OSError SameFileError)
         else
           (case node_at fs (abspath env src) of
              None \<Rightarrow> Inl (OSError FileNotFoundError)
            | Some Dir \<Rightarrow> Inl (OSError IsADirectoryError)
            | Some (File content) \<Rightarrow>
                (case node_at fs target of
                   Some Dir \<Rightarrow> Inl (OSError IsADirectoryError)
                 | Some (File _) \<Rightarrow> Inr (fs(target \<mapsto> File content))
                 | None \<Rightarrow>
                     (case node_at fs (butlast target) of
                        None \<Rightarrow> Inl (OSError FileNotFoundError)
                      | Some (File _) \<Rightarrow> Inl (OSError NotADirectoryError)
                      | Some Dir \<Rightarrow> Inr (fs(target \<mapsto> File content))))))"

text \<open>
  The world of the directory destination: the file system, and the calls of
  \<^verbatim>\<open>print\<close> and \<^verbatim>\<open>shutil.copy\<close> made so far, oldest first.
\<close>

datatype os_call = Print meta string bool | ShutilCopy string path

record world =
  files :: files
  os_calls :: "os_call list"

subsection \<open>The directory destination\<close>

text \<open>\<^verbatim>\<open>DirectoryDestination\<close>: \<^verbatim>\<open>self.directory\<close>, as a location.\<close>

record directory_dest =
  directory :: path

text \<open>
  \<^verbatim>\<open>DirectoryDestination.__init__(self, directory)\<close>, lines 53 to 58. An
  exception of \<^verbatim>\<open>os.makedirs\<close> ends the constructor.
\<close>

definition directory_dest_init ::
  "os_env \<Rightarrow> string \<Rightarrow> world \<Rightarrow> (py_error + directory_dest) \<times> world" where
  "directory_dest_init env dir w =
     (let self = \<lparr>directory = abspath env (expanduser env dir)\<rparr>;
          (r, fs1) = (if node_at (files w) (directory self) = None
                      then makedirs (files w) (directory self)
                      else (Inr (), files w));
          w1 = w\<lparr>files := fs1\<rparr>
      in case r of
           Inl e \<Rightarrow> (Inl e, w1)
         | Inr _ \<Rightarrow>
             (if node_at fs1 (directory self) \<noteq> Some Dir
              then (Inl (IOError ''The destination provided is not a directory.''), w1)
              else (Inr self, w1)))"

text \<open>
  \<^verbatim>\<open>DirectoryDestination.make_available(self, meta, built_dist_path, just_built)\<close>,
  lines 60 to 63.
\<close>

definition directory_make_available ::
  "os_env \<Rightarrow> directory_dest \<Rightarrow> meta \<Rightarrow> string \<Rightarrow> bool \<Rightarrow> world \<Rightarrow> (py_error + unit) \<times> world" where
  "directory_make_available env self m built_dist_path just_built w =
     (if just_built then
        (let w1 = w\<lparr>os_calls := os_calls w @ [Print m built_dist_path just_built]\<rparr>;
             w2 = w1\<lparr>os_calls := os_calls w1 @ [ShutilCopy built_dist_path (directory self)]\<rparr>
         in case shutil_copy env (files w2) built_dist_path (directory self) of
              Inl e \<Rightarrow> (Inl e, w2)
            | Inr fs1 \<Rightarrow> (Inr (), w2\<lparr>files := fs1\<rparr>))
      else (Inr (), w))"

text \<open>Reading a file system and a world.\<close>

fun is_file :: "node option \<Rightarrow> bool" where
  "is_file (Some (File _)) = True"
| "is_file _ = False"


text \<open>
  \<^verbatim>\<open>shutil.copy(src, dst)\<close> into the directory \<open>dst\<close> has nothing in its way:
  the source is a regular file, \<open>dst\<close> is a directory, and the entry of \<open>dst\<close>
  with the source's name is neither the source itself nor a directory.
\<close>

definition copyable :: "os_env \<Rightarrow> files \<Rightarrow> string \<Rightarrow> path \<Rightarrow> bool" where
  "copyable env fs src dst \<longleftrightarrow>
     is_file (node_at fs (abspath env src))
     \<and> basename src \<noteq> [] \<and> basename src \<noteq> ''.'' \<and> basename src \<noteq> ''..''
     \<and> node_at fs dst = Some Dir
     \<and> dst @ [basename src] \<noteq> abspath env src
     \<and> node_at fs (dst @ [basename src]) \<noteq> Some Dir"


text \<open>
  \<^verbatim>\<open>os.path.normpath\<close> on the pieces of a path: empty pieces and \<^verbatim>\<open>.\<close> are
  dropped, \<^verbatim>\<open>..\<close> takes the last piece away (at the root it is dropped).
\<close>

fun normpath :: "path \<Rightarrow> string list \<Rightarrow> path" where
  "normpath acc [] = acc"
| "normpath acc (piece # pieces) =
     (if piece = [] \<or> piece = ''.'' then normpath acc pieces
      else if piece = ''..'' then normpath (butlast acc) pieces
      else normpath (acc @ [piece]) pieces)"

text \<open>
  An environment and a world for the examples. The only user is \<^verbatim>\<open>alice\<close>,
  her home directory and the working directory are \<^verbatim>\<open>/home/alice\<close>:
  \<open>expanduser\<close> replaces a leading \<^verbatim>\<open>~\<close> that stands alone or before a
  \<^verbatim>\<open>/\<close>, \<open>abspath\<close> puts the working directory before a relative path and
  normalises. The file system holds a note in the home directory and a package
  in \<^verbatim>\<open>/tmp\<close>.
\<close>

definition home_env :: os_env where
  "home_env =
     \<lparr>expanduser = (\<lambda>p. if p = ''~'' \<or> take 2 p = ''~/'' then ''/home/alice'' @ drop 1 p else p),
      abspath = (\<lambda>p. normpath (if take 1 p = ''/'' then [] else [''home'', ''alice''])
                        (str_split (CHR ''/'') p))\<rparr>"

definition home_world :: world where
  "home_world =
     \<lparr>files = [[''home''] \<mapsto> Dir, [''home'', ''alice''] \<mapsto> Dir,
               [''home'', ''alice'', ''notes''] \<mapsto> File ''text'',
               [''tmp''] \<mapsto> Dir, [''tmp'', ''pkg-1.0-0.tar.bz2''] \<mapsto> File ''payload''],
      os_calls = []\<rparr>"

section \<open>Properties\<close>

subsection \<open>Strings\<close>

lemma str_contains_iff:
  "str_contains sub s \<longleftrightarrow> (\<exists>pre post. s = pre @ sub @ post)"
proof (induction s)
  case Nil
  then show ?case by auto
next
  case (Cons c cs)
  show ?case
  proof
    assume "str_contains sub (c # cs)"
    then consider "prefix sub (c # cs)" | "str_contains sub cs" by auto
    then show "\<exists>pre post. c # cs = pre @ sub @ post"
    proof cases
      case 1
      then obtain post where "c # cs = sub @ post" by (auto simp: prefix_def)
      then have "c # cs = [] @ sub @ post" by simp
      then show ?thesis by blast
    next
      case 2
      with Cons.IH obtain pre post where "cs = pre @ sub @ post" by blast
      then have "c # cs = (c # pre) @ sub @ post" by simp
      then show ?thesis by blast
    qed
  next
    assume "\<exists>pre post. c # cs = pre @ sub @ post"
    then obtain pre post where eq: "c # cs = pre @ sub @ post" by blast
    show "str_contains sub (c # cs)"
    proof (cases pre)
      case Nil
      with eq have "prefix sub (c # cs)" by (simp add: prefix_def)
      then show ?thesis by simp
    next
      case (Cons p pre')
      with eq have "cs = pre' @ sub @ post" by simp
      with Cons.IH have "str_contains sub cs" by blast
      then show ?thesis by simp
    qed
  qed
qed

lemma str_contains_char: "str_contains [c] s \<longleftrightarrow> c \<in> set s"
  by (induction s) auto

lemma str_split_not_Nil: "str_split sep s \<noteq> []"
  by (induction s) (auto split: list.splits)

lemma length_str_split: "length (str_split sep s) = Suc (length (filter (\<lambda>c. c = sep) s))"
  by (induction s) (auto simp: str_split_not_Nil split: list.splits)

lemma str_split_no_sep: "sep \<notin> set s \<Longrightarrow> str_split sep s = [s]"
  by (induction s) auto

lemma str_split_append:
  "sep \<notin> set a \<Longrightarrow> str_split sep (a @ sep # b) = a # str_split sep b"
  by (induction a) auto

subsection \<open>\<^verbatim>\<open>from_spec\<close>\<close>

lemma from_spec_no_slash:
  "CHR ''/'' \<notin> set spec \<Longrightarrow>
     from_spec environ spec st = Inr (channel_dest_init (environ ''BINSTAR_TOKEN'') spec ''main'' st)"
  by (simp add: from_spec_def str_contains_char)

text \<open>
  A specification with exactly one \<^verbatim>\<open>/\<close>, the documented form
  \<^verbatim>\<open>"owner/channel"\<close>, splits into two pieces, and the unpacking into three names
  raises.
\<close>

lemma from_spec_one_slash:
  assumes "CHR ''/'' \<notin> set own" and "CHR ''/'' \<notin> set chan"
  shows "from_spec environ (own @ ''/'' @ chan) st = Inl ValueError"
proof -
  have "str_split (CHR ''/'') (own @ ''/'' @ chan) = [own, chan]"
    using assms by (simp add: str_split_append str_split_no_sep)
  then show ?thesis
    by (simp add: from_spec_def str_contains_char)
qed

text \<open>With exactly two \<^verbatim>\<open>/\<close> the middle piece is dropped.\<close>

lemma from_spec_two_slashes:
  assumes "CHR ''/'' \<notin> set own" and "CHR ''/'' \<notin> set mid" and "CHR ''/'' \<notin> set chan"
  shows "from_spec environ (own @ ''/'' @ mid @ ''/'' @ chan) st
           = Inr (channel_dest_init (environ ''BINSTAR_TOKEN'') own chan st)"
proof -
  have "str_split (CHR ''/'') (own @ ''/'' @ mid @ ''/'' @ chan) = [own, mid, chan]"
    using assms by (simp add: str_split_append str_split_no_sep)
  then show ?thesis
    by (simp add: from_spec_def str_contains_char)
qed

text \<open>\<^verbatim>\<open>from_spec\<close> returns an object exactly for the specifications with no or two \<^verbatim>\<open>/\<close>.\<close>

lemma from_spec_Inr_iff:
  "(\<exists>d. (from_spec environ spec st :: py_error + 'c channel_dest) = Inr d) \<longleftrightarrow>
     length (filter (\<lambda>c. c = CHR ''/'') spec) \<in> {0, 2}"
proof (cases "CHR ''/'' \<in> set spec")
  case False
  then have "filter (\<lambda>c. c = CHR ''/'') spec = []"
    by (auto simp: filter_empty_conv)
  with False show ?thesis by (simp add: from_spec_no_slash)
next
  case True
  then have nz: "filter (\<lambda>c. c = CHR ''/'') spec \<noteq> []"
    by (auto simp: filter_empty_conv)
  have len: "length (str_split (CHR ''/'') spec) = Suc (length (filter (\<lambda>c. c = CHR ''/'') spec))"
    by (rule length_str_split)
  show ?thesis
  proof (cases "length (filter (\<lambda>c. c = CHR ''/'') spec) = 2")
    case two: True
    with len have "length (str_split (CHR ''/'') spec) = 3" by simp
    then obtain a b c where "str_split (CHR ''/'') spec = [a, b, c]"
      by (auto simp: length_Suc_conv numeral_3_eq_3)
    with True two show ?thesis
      by (simp add: from_spec_def str_contains_char)
  next
    case other: False
    with len have "length (str_split (CHR ''/'') spec) \<noteq> 3" by simp
    then have "from_spec environ spec st = (Inl ValueError :: py_error + 'c channel_dest)"
      using True by (auto simp: from_spec_def str_contains_char split: list.splits)
    with other nz show ?thesis by simp
  qed
qed

lemma from_spec_alice:
  "from_spec environ ''alice'' st
     = Inr (channel_dest_init (environ ''BINSTAR_TOKEN'') ''alice'' ''main'' st)"
  by (simp add: from_spec_def)

text \<open>
  Claim C1: \<^verbatim>\<open>from_spec("alice/test")\<close> is said to give the owner \<^verbatim>\<open>alice\<close> and
  the channel \<^verbatim>\<open>test\<close>. The code does not: \<^verbatim>\<open>"alice/test".split('/')\<close> has two
  pieces, the unpacking \<^verbatim>\<open>owner, _, channel = ...\<close> needs three, and the call
  raises \<open>ValueError\<close>, whatever the environment and the site.
\<close>

theorem from_spec_alice_test_raises:
  "from_spec environ ''alice/test'' st = Inl ValueError"
  by (simp add: from_spec_def)

subsection \<open>\<^verbatim>\<open>AnacondaClientChannelDest.make_available\<close>\<close>

lemma ensure_cli_fields:
  "ensure_cli sv self t = (c, self1, t1) \<Longrightarrow>
     c = client_in_use sv self t \<and> self1 = self\<lparr>cli := Some c\<rparr>"
  by (auto simp: ensure_cli_def client_in_use_def Let_def split: option.splits)

lemma make_available_queries:
  assumes awo: "already_with_owner sv self m t = Inr awo"
      and aoc: "already_on_channel sv self m t = Inr aoc"
  shows "make_available sv self m p jb t =
           (case dispatch sv self (client_in_use sv self t) m p jb awo aoc (queried sv self m t) of
              (r, t4) \<Rightarrow> (r, self\<lparr>cli := Some (client_in_use sv self t)\<rparr>, t4))"
proof -
  obtain c self1 t1 where e: "ensure_cli sv self t = (c, self1, t1)"
    by (cases "ensure_cli sv self t") auto
  from ensure_cli_fields [OF e]
  have c: "c = client_in_use sv self t" and s: "self1 = self\<lparr>cli := Some c\<rparr>" by simp_all
  have d: "dispatch sv (self\<lparr>cli := Some c\<rparr>) c m p jb awo aoc tr
             = dispatch sv self c m p jb awo aoc tr" for tr
    by (simp add: dispatch_def)
  from awo e s have q1: "distribution_exists sv t1 c (owner self) m = Inr awo"
    by (simp add: already_with_owner_def)
  from aoc e s have q2:
    "distribution_exists_on_channel sv (t1 @ [DistributionExists c (owner self) m])
       c (owner self) m (channel self) = Inr aoc"
    by (simp add: already_on_channel_def)
  have q: "queried sv self m t = t1 @ [DistributionExists c (owner self) m,
      DistributionExistsOnChannel c (owner self) m (channel self)]"
    using e s by (simp add: queried_def)
  show ?thesis
    unfolding make_available_def e
    using q1 q2 by (simp add: d q s c [symmetric])
qed


lemma queried_uploads: "filter is_upload (queried sv self m t) = filter is_upload t"
  by (simp add: queried_def ensure_cli_def Let_def split: option.splits)

lemma queried_links: "filter is_link (queried sv self m t) = filter is_link t"
  by (simp add: queried_def ensure_cli_def Let_def split: option.splits)





lemma fixed_awo: "already_with_owner (fixed_services awo aoc) alice_test pkg [] = Inr awo"
  by (simp add: already_with_owner_def ensure_cli_def fixed_services_def alice_test_def
      channel_dest_init_def)

lemma fixed_aoc: "already_on_channel (fixed_services awo aoc) alice_test pkg [] = Inr aoc"
  by (simp add: already_on_channel_def ensure_cli_def fixed_services_def alice_test_def
      channel_dest_init_def)

lemma fixed_client: "client_in_use (fixed_services awo aoc) alice_test [] = 0"
  by (simp add: client_in_use_def ensure_cli_def fixed_services_def alice_test_def
      channel_dest_init_def)


text \<open>
  Claim C3: when the distribution is already on the channel, whatever
  \<open>just_built\<close> is, the call makes no upload and no link: after the two
  queries it adds one log record to the trace and nothing else, returns
  \<^verbatim>\<open>None\<close>, and leaves the object as it was but for the cached client.
\<close>

theorem on_channel_no_upload_no_link:
  assumes "already_with_owner sv self m t = Inr awo"
      and "already_on_channel sv self m t = Inr True"
  shows "outcome (make_available sv self m p jb t) = Inr ()
       \<and> filter is_upload (trace_after (make_available sv self m p jb t)) = filter is_upload t
       \<and> filter is_link (trace_after (make_available sv self m p jb t)) = filter is_link t
       \<and> (\<exists>l. is_log l \<and>
            trace_after (make_available sv self m p jb t) = queried sv self m t @ [l])
       \<and> dest_after (make_available sv self m p jb t)
           = self\<lparr>cli := Some (client_in_use sv self t)\<rparr>"
  by (cases jb)
     (simp_all add: make_available_queries [OF assms] outcome_def trace_after_def dest_after_def
        dispatch_def queried_uploads queried_links)

theorem on_channel_no_upload_no_link_witness:
  "already_with_owner (fixed_services True True) alice_test pkg [] = Inr True
   \<and> already_on_channel (fixed_services True True) alice_test pkg [] = Inr True
   \<and> outcome (make_available (fixed_services True True) alice_test pkg
        ''/tmp/pkg-1.0-0.tar.bz2'' True []) = Inr ()
   \<and> filter is_upload (trace_after (make_available (fixed_services True True) alice_test pkg
        ''/tmp/pkg-1.0-0.tar.bz2'' True [])) = []
   \<and> filter is_link (trace_after (make_available (fixed_services True True) alice_test pkg
        ''/tmp/pkg-1.0-0.tar.bz2'' True [])) = []"
  using on_channel_no_upload_no_link [OF fixed_awo [of True True] fixed_aoc [of True True],
      where p = "''/tmp/pkg-1.0-0.tar.bz2''" and jb = True]
    fixed_awo [of True True] fixed_aoc [of True True]
  by simp

text \<open>
  Claim C4: when the distribution is not on the channel but the owner has it,
  the call makes exactly one link, \<^verbatim>\<open>add_distribution_to_channel\<close> with the
  client, the owner, the metadata and the channel of the destination, and no
  upload, whatever \<open>just_built\<close> is.
\<close>

theorem owned_not_on_channel_links_once:
  assumes "already_with_owner sv self m t = Inr True"
      and "already_on_channel sv self m t = Inr False"
  shows "filter is_link (trace_after (make_available sv self m p jb t))
           = filter is_link t
               @ [AddDistributionToChannel (client_in_use sv self t) (owner self) m (channel self)]
       \<and> filter is_upload (trace_after (make_available sv self m p jb t)) = filter is_upload t"
  by (cases jb)
     (simp_all add: make_available_queries [OF assms] trace_after_def
        dispatch_def Let_def queried_uploads queried_links)

theorem owned_not_on_channel_links_once_witness:
  "already_with_owner (fixed_services True False) alice_test pkg [] = Inr True
   \<and> already_on_channel (fixed_services True False) alice_test pkg [] = Inr False
   \<and> filter is_link (trace_after (make_available (fixed_services True False) alice_test pkg
        ''/tmp/pkg-1.0-0.tar.bz2'' False []))
       = [AddDistributionToChannel 0 ''alice'' pkg ''test'']
   \<and> filter is_upload (trace_after (make_available (fixed_services True False) alice_test pkg
        ''/tmp/pkg-1.0-0.tar.bz2'' False [])) = []"
  using owned_not_on_channel_links_once [OF fixed_awo [of True False] fixed_aoc [of True False],
      where p = "''/tmp/pkg-1.0-0.tar.bz2''" and jb = False]
    fixed_awo [of True False] fixed_aoc [of True False]
  by (simp add: fixed_client) (simp add: alice_test_def channel_dest_init_def)

text \<open>
  Claim C5: when the distribution is neither on the channel nor with the
  owner and was just built, the call makes exactly one upload, with the
  destination's owner and the channel list holding exactly the destination's
  channel, and no link.
\<close>

theorem just_built_unknown_uploads_once:
  assumes "already_with_owner sv self m t = Inr False"
      and "already_on_channel sv self m t = Inr False"
  shows "filter is_upload (trace_after (make_available sv self m p True t))
           = filter is_upload t
               @ [Upload (client_in_use sv self t) m (owner self) [channel self]]
       \<and> filter is_link (trace_after (make_available sv self m p True t)) = filter is_link t"
  by (simp add: make_available_queries [OF assms] trace_after_def
        dispatch_def Let_def queried_uploads queried_links)

theorem just_built_unknown_uploads_once_witness:
  "already_with_owner (fixed_services False False) alice_test pkg [] = Inr False
   \<and> already_on_channel (fixed_services False False) alice_test pkg [] = Inr False
   \<and> filter is_upload (trace_after (make_available (fixed_services False False) alice_test pkg
        ''/tmp/pkg-1.0-0.tar.bz2'' True []))
       = [Upload 0 pkg ''alice'' [''test'']]
   \<and> filter is_link (trace_after (make_available (fixed_services False False) alice_test pkg
        ''/tmp/pkg-1.0-0.tar.bz2'' True [])) = []"
  using just_built_unknown_uploads_once [OF fixed_awo [of False False] fixed_aoc [of False False],
      where p = "''/tmp/pkg-1.0-0.tar.bz2''"]
    fixed_awo [of False False] fixed_aoc [of False False]
  by (simp add: fixed_client) (simp add: alice_test_def channel_dest_init_def)



text \<open>
  Claim C10: in that last branch the test on the path is a substring test. The
  call raises the \<open>NotImplementedError\<close> exactly when \<^verbatim>\<open>http://\<close> or
  \<^verbatim>\<open>https://\<close> occurs somewhere in the path, not only at its start; a path
  with neither, such as a URL whose scheme is in upper case, returns \<^verbatim>\<open>None\<close>.
\<close>

theorem url_test_is_substring_test:
  assumes "already_with_owner sv self m t = Inr False"
      and "already_on_channel sv self m t = Inr False"
  shows "outcome (make_available sv self m p False t) =
           (if (\<exists>pre post. p = pre @ ''http://'' @ post)
               \<or> (\<exists>pre post. p = pre @ ''https://'' @ post)
            then Inl (NotImplementedError ''cross owner copying not yet implemented.'')
            else Inr ())"
proof -
  have "outcome (make_available sv self m p False t) =
           (if str_contains ''http://'' p \<or> str_contains ''https://'' p
            then Inl (NotImplementedError ''cross owner copying not yet implemented.'')
            else Inr ())"
    by (simp add: make_available_queries [OF assms] outcome_def dispatch_def)
  then show ?thesis
    unfolding str_contains_iff .
qed

theorem url_test_is_substring_test_witness:
  "already_with_owner (fixed_services False False) alice_test pkg [] = Inr False
   \<and> already_on_channel (fixed_services False False) alice_test pkg [] = Inr False
   \<and> outcome (make_available (fixed_services False False) alice_test pkg
        ''/mirror/http://host/pkg-1.0-0.tar.bz2'' False [])
       = Inl (NotImplementedError ''cross owner copying not yet implemented.'')
   \<and> outcome (make_available (fixed_services False False) alice_test pkg
        ''HTTP://HOST/pkg-1.0-0.tar.bz2'' False []) = Inr ()"
  using url_test_is_substring_test [OF fixed_awo [of False False] fixed_aoc [of False False],
      where p = "''/mirror/http://host/pkg-1.0-0.tar.bz2''", folded str_contains_iff]
    url_test_is_substring_test [OF fixed_awo [of False False] fixed_aoc [of False False],
      where p = "''HTTP://HOST/pkg-1.0-0.tar.bz2''", folded str_contains_iff]
    fixed_awo [of False False] fixed_aoc [of False False]
  by simp









text \<open>
  An exception of the first query ends the call; the client built for it stays
  in \<^verbatim>\<open>self._cli\<close>.
\<close>

lemma make_available_query_raises:
  assumes "already_with_owner sv self m t = Inl e"
  shows "outcome (make_available sv self m p jb t) = Inl e
       \<and> cli (dest_after (make_available sv self m p jb t)) = Some (client_in_use sv self t)"
proof -
  obtain c self1 t1 where e: "ensure_cli sv self t = (c, self1, t1)"
    by (cases "ensure_cli sv self t") auto
  from ensure_cli_fields [OF e]
  have c: "c = client_in_use sv self t" and s: "self1 = self\<lparr>cli := Some c\<rparr>" by simp_all
  from assms e have "distribution_exists sv t1 c (owner self1) m = Inl e"
    by (simp add: already_with_owner_def)
  then show ?thesis
    by (simp add: make_available_def e outcome_def dest_after_def s c [symmetric])
qed




subsection \<open>\<^verbatim>\<open>DirectoryDestination.__init__\<close>\<close>

declare makedirs.simps [simp del]

lemma node_at_root [simp]: "node_at fs [] = Some Dir"
  by (simp add: node_at_def)













text \<open>
  The example environment normalises the target: behind \<^verbatim>\<open>..\<close> the
  constructor finds the note and raises the \<open>IOError\<close> of line 58.
\<close>

lemma directory_dest_init_dotdot:
  "directory_dest_init home_env ''/tmp/../home/alice/./notes'' home_world
     = (Inl (IOError ''The destination provided is not a directory.''), home_world)"
  by (simp add: directory_dest_init_def home_env_def home_world_def node_at_def)

text \<open>
  A regular file as the parent of a missing target is in the way of
  \<^verbatim>\<open>os.makedirs\<close>: the constructor ends with the \<open>NotADirectoryError\<close> of
  \<^verbatim>\<open>os.mkdir\<close> and changes nothing.
\<close>

lemma directory_dest_init_parent_file:
  assumes "node_at (files w) (abspath env (expanduser env dir)) = None"
      and "is_file (node_at (files w) (butlast (abspath env (expanduser env dir))))"
  shows "directory_dest_init env dir w = (Inl (OSError NotADirectoryError), w)"
proof -
  let ?p = "abspath env (expanduser env dir)"
  from assms(2) obtain c where parent: "node_at (files w) (butlast ?p) = Some (File c)"
    by (cases "node_at (files w) (butlast ?p)" rule: is_file.cases) auto
  have "makedirs (files w) ?p = (Inl (OSError NotADirectoryError), files w)"
    using assms(1) parent by (subst makedirs.simps) (simp add: mkdir_def)
  with assms(1) show ?thesis by (simp add: directory_dest_init_def)
qed


subsection \<open>\<^verbatim>\<open>DirectoryDestination.make_available\<close>\<close>

lemma is_file_conv: "is_file x \<longleftrightarrow> (\<exists>c. x = Some (File c))"
  by (cases x rule: is_file.cases) auto

lemma shutil_copy_ok:
  assumes "copyable env fs src dst"
  shows "\<exists>c. node_at fs (abspath env src) = Some (File c)
           \<and> shutil_copy env fs src dst = Inr (fs(dst @ [basename src] \<mapsto> File c))"
proof -
  from assms obtain c where c: "node_at fs (abspath env src) = Some (File c)"
    by (auto simp: copyable_def is_file_conv)
  from assms have d: "node_at fs dst = Some Dir" by (simp add: copyable_def)
  have "butlast (dst @ [basename src]) = dst" by simp
  with assms c d have "shutil_copy env fs src dst = Inr (fs(dst @ [basename src] \<mapsto> File c))"
    by (auto simp: shutil_copy_def copyable_def Let_def split: option.splits node.splits)
  with c show ?thesis by blast
qed

lemma shutil_copy_succeeds_iff:
  assumes "node_at fs dst = Some Dir"
  shows "(\<exists>fs'. shutil_copy env fs src dst = Inr fs') \<longleftrightarrow> copyable env fs src dst"
proof
  assume "copyable env fs src dst"
  from shutil_copy_ok [OF this] show "\<exists>fs'. shutil_copy env fs src dst = Inr fs'" by blast
next
  assume "\<exists>fs'. shutil_copy env fs src dst = Inr fs'"
  then show "copyable env fs src dst"
    using assms
    by (auto simp: shutil_copy_def copyable_def Let_def is_file_conv
        split: option.splits node.splits if_splits)
qed

text \<open>
  Into a destination that is a directory, a copy with something in its way
  raises and leaves the file system as it was.
\<close>

lemma directory_make_available_copy_fails:
  assumes "node_at (files w) (directory self) = Some Dir"
      and "\<not> copyable env (files w) p (directory self)"
  shows "\<exists>e. directory_make_available env self m p True w
              = (Inl e, w\<lparr>os_calls := os_calls w @ [Print m p True, ShutilCopy p (directory self)]\<rparr>)"
proof (cases "shutil_copy env (files w) p (directory self)")
  case (Inl e)
  then show ?thesis by (simp add: directory_make_available_def Let_def)
next
  case (Inr fs')
  with shutil_copy_succeeds_iff [OF assms(1), of env p] have "copyable env (files w) p (directory self)"
    by blast
  with assms(2) show ?thesis by simp
qed





end
